theory Spec2Isabelle
  imports Main "HOL-Library.Word" "HOL-Library.AList" "HOL-Library.Sublist"
begin

section \<open>The authenticated browser-automation service\<close>

text \<open>
  A shallow embedding of \<^verbatim>\<open>src/server/browserless-auth-service.ts\<close>, the class
  \<^verbatim>\<open>BrowserlessAuthService\<close>. The four public methods drive a headless browser through
  the Playwright API. The browser is outside the repository, so it is a parameter of the
  model: a record of oracles that decide, from the calls made so far, whether the next call
  returns (and what) or throws. Every method is a program that reads the history of calls
  and yields its outcome together with the calls it made itself, in order.
\<close>

subsection \<open>Data\<close>

type_synonym byte = "8 word"

record viewport =
  width :: int
  height :: int

text \<open>\<^verbatim>\<open>interface AuthenticatedBrowserOptions\<close>: every field is optional. The field
  \<^verbatim>\<open>sessionData\<close> is read by no method and is left out.\<close>

record AuthenticatedBrowserOptions =
  opt_viewport :: "viewport option"
  opt_userAgent :: "string option"
  opt_bypassAuth :: "bool option"
  opt_timeout :: "int option"

text \<open>The object literal handed to \<^verbatim>\<open>browser.newContext\<close>; a field that the call site
  does not write is \<open>None\<close>.\<close>

record context_options =
  ctx_viewport :: "viewport option"
  ctx_userAgent :: "string option"

record screenshot_options =
  fullPage :: bool
  image_type :: "string option"

record pdf_margin =
  margin_top :: string
  margin_right :: string
  margin_bottom :: string
  margin_left :: string

record pdf_options =
  format :: string
  printBackground :: bool
  margin :: pdf_margin

text \<open>The calls a method makes on its collaborators: the browser pool, the context, the
  page and the console.\<close>

datatype call =
    GetPlaywrightBrowser
  | NewContext context_options
  | NewPage
  | SetExtraHTTPHeaders "(string \<times> string) list"
  | Goto string string
  | WaitForSelector string int
  | Screenshot screenshot_options
  | Pdf pdf_options
  | Title
  | Click string
  | Fill string string
  | WaitForTimeout int
  | AllTextContents string
  | IsVisible string
  | TextContent string
  | CloseContext
  | ConsoleLog string
  | ConsoleError string string

text \<open>A call either returned or threw; a thrown value is kept as the string that a
  template literal \<^verbatim>\<open>${error}\<close> renders it to.\<close>

datatype event = Did call | Threw call string

record browser =
  r_getPlaywrightBrowser :: "event list \<Rightarrow> string + unit"
  r_newContext :: "event list \<Rightarrow> context_options \<Rightarrow> string + unit"
  r_newPage :: "event list \<Rightarrow> string + unit"
  r_setExtraHTTPHeaders :: "event list \<Rightarrow> (string \<times> string) list \<Rightarrow> string + unit"
  r_goto :: "event list \<Rightarrow> string \<Rightarrow> string \<Rightarrow> string + unit"
  r_waitForSelector :: "event list \<Rightarrow> string \<Rightarrow> int \<Rightarrow> string + unit"
  r_screenshot :: "event list \<Rightarrow> screenshot_options \<Rightarrow> string + byte list"
  r_pdf :: "event list \<Rightarrow> pdf_options \<Rightarrow> string + byte list"
  r_title :: "event list \<Rightarrow> string + string"
  r_url :: "event list \<Rightarrow> string"
  r_viewportSize :: "event list \<Rightarrow> viewport option"
  r_click :: "event list \<Rightarrow> string \<Rightarrow> string + unit"
  r_fill :: "event list \<Rightarrow> string \<Rightarrow> string \<Rightarrow> string + unit"
  r_waitForTimeout :: "event list \<Rightarrow> int \<Rightarrow> string + unit"
  r_allTextContents :: "event list \<Rightarrow> string \<Rightarrow> string + string list"
  r_isVisible :: "event list \<Rightarrow> string \<Rightarrow> string + bool"
  r_textContent :: "event list \<Rightarrow> string \<Rightarrow> string + string option"
  r_now :: "event list \<Rightarrow> string"

text \<open>The service object: \<^verbatim>\<open>this.appBaseUrl\<close>, and the constant \<^verbatim>\<open>TEST_USER\<close> that the
  module imports from \<^verbatim>\<open>./auth-bypass\<close>, whose shape is left open.\<close>

record 'u service =
  appBaseUrl :: string
  TEST_USER :: 'u

record 'u screenshot_metadata =
  sm_url :: string
  sm_title :: string
  sm_viewportSize :: "viewport option"
  sm_user :: 'u

record 'u screenshot_result =
  screenshot :: string
  sr_timestamp :: string
  sr_metadata :: "'u screenshot_metadata"

record 'u pdf_metadata =
  pm_url :: string
  pm_title :: string
  pm_user :: 'u

record 'u pdf_result =
  pdf :: string
  pr_timestamp :: string
  pr_metadata :: "'u pdf_metadata"

datatype action = goto | click | fill | screenshot_action | wait

record flow_step =
  action :: action
  selector :: "string option"
  val :: "string option"
  path :: "string option"
  timeout :: "int option"

record flow_result =
  success :: bool
  screenshots :: "string list"
  logs :: "string list"
  fr_timestamp :: string

text \<open>What a key of the scraped \<^verbatim>\<open>data\<close> object can hold: the text contents of a
  selector, a string, or the user-info object. A JavaScript object is kept as an association
  list in insertion order, written with \<^const>\<open>AList.update\<close> and read with
  \<^const>\<open>map_of\<close>.\<close>

datatype scraped =
    Texts "string list"
  | Str string
  | Obj "(string \<times> string option) list"

record 'u scrape_metadata =
  cm_url :: string
  cm_title :: string
  cm_authenticated :: bool
  cm_user :: 'u

record 'u scrape_result =
  data :: "(string \<times> scraped) list"
  cr_timestamp :: string
  cr_metadata :: "'u scrape_metadata"

subsection \<open>Programs over the call history\<close>

type_synonym 'a prog = "event list \<Rightarrow> (string + 'a) \<times> event list"

definition ret :: "'a \<Rightarrow> 'a prog" where
  "ret x h = (Inr x, [])"

definition andThen :: "'a prog \<Rightarrow> ('a \<Rightarrow> 'b prog) \<Rightarrow> 'b prog" where
  "andThen m f h =
     (case m h of
        (Inl e, es) \<Rightarrow> (Inl e, es)
      | (Inr x, es) \<Rightarrow> (case f x (h @ es) of (r, es') \<Rightarrow> (r, es @ es')))"

text \<open>\<^verbatim>\<open>try { m } catch (error) { handler }\<close>\<close>

definition tryCatch :: "'a prog \<Rightarrow> (string \<Rightarrow> 'a prog) \<Rightarrow> 'a prog" where
  "tryCatch m handler h =
     (case m h of
        (Inl e, es) \<Rightarrow> (case handler e (h @ es) of (r, es') \<Rightarrow> (r, es @ es'))
      | (Inr x, es) \<Rightarrow> (Inr x, es))"

text \<open>\<^verbatim>\<open>try { m } finally { fin }\<close>: the finaliser runs on both outcomes of \<open>m\<close>; if
  it throws, its error replaces the outcome.\<close>

definition tryFinally :: "'a prog \<Rightarrow> unit prog \<Rightarrow> 'a prog" where
  "tryFinally m fin h =
     (case m h of
        (r, es) \<Rightarrow>
          (case fin (h @ es) of
             (Inl e, es') \<Rightarrow> (Inl e, es @ es')
           | (Inr _, es') \<Rightarrow> (r, es @ es')))"

definition perform :: "call \<Rightarrow> (event list \<Rightarrow> string + 'a) \<Rightarrow> 'a prog" where
  "perform c oracle h =
     (case oracle h of
        Inl e \<Rightarrow> (Inl e, [Threw c e])
      | Inr v \<Rightarrow> (Inr v, [Did c]))"

definition observe :: "(event list \<Rightarrow> 'a) \<Rightarrow> 'a prog" where
  "observe f h = (Inr (f h), [])"

subsection \<open>The collaborators' operations\<close>

definition getPlaywrightBrowser :: "browser \<Rightarrow> unit prog" where
  "getPlaywrightBrowser env = perform GetPlaywrightBrowser (r_getPlaywrightBrowser env)"

definition newContext :: "browser \<Rightarrow> context_options \<Rightarrow> unit prog" where
  "newContext env c = perform (NewContext c) (\<lambda>h. r_newContext env h c)"

definition newPage :: "browser \<Rightarrow> unit prog" where
  "newPage env = perform NewPage (r_newPage env)"

definition setExtraHTTPHeaders :: "browser \<Rightarrow> (string \<times> string) list \<Rightarrow> unit prog" where
  "setExtraHTTPHeaders env hs = perform (SetExtraHTTPHeaders hs) (\<lambda>h. r_setExtraHTTPHeaders env h hs)"

definition page_goto :: "browser \<Rightarrow> string \<Rightarrow> string \<Rightarrow> unit prog" where
  "page_goto env u w = perform (Goto u w) (\<lambda>h. r_goto env h u w)"

definition waitForSelector :: "browser \<Rightarrow> string \<Rightarrow> int \<Rightarrow> unit prog" where
  "waitForSelector env s t = perform (WaitForSelector s t) (\<lambda>h. r_waitForSelector env h s t)"

definition page_screenshot :: "browser \<Rightarrow> screenshot_options \<Rightarrow> byte list prog" where
  "page_screenshot env so = perform (Screenshot so) (\<lambda>h. r_screenshot env h so)"

definition page_pdf :: "browser \<Rightarrow> pdf_options \<Rightarrow> byte list prog" where
  "page_pdf env po = perform (Pdf po) (\<lambda>h. r_pdf env h po)"

definition page_title :: "browser \<Rightarrow> string prog" where
  "page_title env = perform Title (r_title env)"

definition page_url :: "browser \<Rightarrow> string prog" where
  "page_url env = observe (r_url env)"

definition page_viewportSize :: "browser \<Rightarrow> viewport option prog" where
  "page_viewportSize env = observe (r_viewportSize env)"

definition page_click :: "browser \<Rightarrow> string \<Rightarrow> unit prog" where
  "page_click env s = perform (Click s) (\<lambda>h. r_click env h s)"

definition page_fill :: "browser \<Rightarrow> string \<Rightarrow> string \<Rightarrow> unit prog" where
  "page_fill env s v = perform (Fill s v) (\<lambda>h. r_fill env h s v)"

definition waitForTimeout :: "browser \<Rightarrow> int \<Rightarrow> unit prog" where
  "waitForTimeout env t = perform (WaitForTimeout t) (\<lambda>h. r_waitForTimeout env h t)"

definition allTextContents :: "browser \<Rightarrow> string \<Rightarrow> string list prog" where
  "allTextContents env s = perform (AllTextContents s) (\<lambda>h. r_allTextContents env h s)"

definition isVisible :: "browser \<Rightarrow> string \<Rightarrow> bool prog" where
  "isVisible env s = perform (IsVisible s) (\<lambda>h. r_isVisible env h s)"

definition textContent :: "browser \<Rightarrow> string \<Rightarrow> string option prog" where
  "textContent env s = perform (TextContent s) (\<lambda>h. r_textContent env h s)"

definition now_iso :: "browser \<Rightarrow> string prog" where
  "now_iso env = observe (r_now env)"

text \<open>\<^verbatim>\<open>context.close()\<close> is the teardown of the session. The model takes it as
  completing: closing a context resolves also when the context is already gone.\<close>

definition context_close :: "unit prog" where
  "context_close h = (Inr (), [Did CloseContext])"

definition console_log :: "string \<Rightarrow> unit prog" where
  "console_log msg h = (Inr (), [Did (ConsoleLog msg)])"

definition console_error :: "string \<Rightarrow> string \<Rightarrow> unit prog" where
  "console_error msg err h = (Inr (), [Did (ConsoleError msg err)])"

subsection \<open>Strings\<close>

text \<open>Strings are byte lists; the pictographs of the console messages are their UTF-8
  bytes.\<close>

definition sym_camera :: string where
  "sym_camera = [CHR 0xF0, CHR 0x9F, CHR 0x93, CHR 0xB8]"

definition sym_warning :: string where
  "sym_warning = [CHR 0xE2, CHR 0x9A, CHR 0xA0, CHR 0xEF, CHR 0xB8, CHR 0x8F]"

definition sym_page :: string where
  "sym_page = [CHR 0xF0, CHR 0x9F, CHR 0x93, CHR 0x84]"

definition sym_masks :: string where
  "sym_masks = [CHR 0xF0, CHR 0x9F, CHR 0x8E, CHR 0xAD]"

definition sym_cross :: string where
  "sym_cross = [CHR 0xE2, CHR 0x9D, CHR 0x8C]"

definition sym_spider :: string where
  "sym_spider = [CHR 0xF0, CHR 0x9F, CHR 0x95, CHR 0xB7, CHR 0xEF, CHR 0xB8, CHR 0x8F]"

definition digit :: "nat \<Rightarrow> char" where
  "digit n = ''0123456789'' ! n"

fun show_nat :: "nat \<Rightarrow> string" where
  "show_nat n =
     (if n < 10 then [digit n]
      else show_nat (n div 10) @ [digit (n mod 10)])"

definition show_int :: "int \<Rightarrow> string" where
  "show_int i = (if i < 0 then ''-'' @ show_nat (nat (- i)) else show_nat (nat i))"

definition base64_alphabet :: string where
  "base64_alphabet = ''ABCDEFGHIJKLMNOPQRSTUVWXYZabcdefghijklmnopqrstuvwxyz0123456789+/''"

definition b64 :: "nat \<Rightarrow> char" where
  "b64 n = base64_alphabet ! n"

text \<open>\<^verbatim>\<open>Buffer.from(bytes).toString('base64')\<close>\<close>

fun base64 :: "byte list \<Rightarrow> string" where
  "base64 [] = []"
| "base64 [a] =
     [b64 (unat a div 4), b64 (unat a mod 4 * 16), CHR ''='', CHR ''='']"
| "base64 [a, b] =
     [b64 (unat a div 4), b64 (unat a mod 4 * 16 + unat b div 16),
      b64 (unat b mod 16 * 4), CHR ''='']"
| "base64 (a # b # c # rest) =
     [b64 (unat a div 4), b64 (unat a mod 4 * 16 + unat b div 16),
      b64 (unat b mod 16 * 4 + unat c div 64), b64 (unat c mod 64)] @ base64 rest"

text \<open>The truthiness tests of the source: \<^verbatim>\<open>x || d\<close> and \<^verbatim>\<open>if (x)\<close> take an absent
  field, the empty string and the number zero as false. \<open>truthy s\<close> is the string that
  passes \<^verbatim>\<open>if (s)\<close>, if any.\<close>

definition truthy :: "string option \<Rightarrow> string option" where
  "truthy s = (case s of None \<Rightarrow> None | Some x \<Rightarrow> if x = [] then None else Some x)"

definition or_string :: "string option \<Rightarrow> string \<Rightarrow> string" where
  "or_string s d = (case s of None \<Rightarrow> d | Some x \<Rightarrow> if x = [] then d else x)"

definition or_int :: "int option \<Rightarrow> int \<Rightarrow> int" where
  "or_int n d = (case n of None \<Rightarrow> d | Some x \<Rightarrow> if x = 0 then d else x)"

definition or_viewport :: "viewport option \<Rightarrow> viewport \<Rightarrow> viewport" where
  "or_viewport v d = (case v of None \<Rightarrow> d | Some x \<Rightarrow> x)"

subsection \<open>Constants of the methods\<close>

definition default_viewport :: viewport where
  "default_viewport = \<lparr>width = 1920, height = 1080\<rparr>"

definition default_userAgent :: string where
  "default_userAgent = ''Mozilla/5.0 (compatible; Playwright Testing Bot)''"

definition bypassHeaders :: "(string \<times> string) list" where
  "bypassHeaders = [(''x-test-auth-bypass'', ''true''), (''x-testing-mode'', ''true'')]"

definition readinessMarker :: string where
  "readinessMarker = ''[data-testid=\"authenticated-content\"]''"

definition networkidle :: string where
  "networkidle = ''networkidle''"

definition warn_proceeding :: string where
  "warn_proceeding = sym_warning @ '' No authenticated content marker found, proceeding anyway''"

definition warn_plain :: string where
  "warn_plain = sym_warning @ '' No authenticated content marker found''"

definition a4_options :: pdf_options where
  "a4_options =
     \<lparr>format = ''A4'', printBackground = True,
      margin = \<lparr>margin_top = ''1in'', margin_right = ''1in'',
                margin_bottom = ''1in'', margin_left = ''1in''\<rparr>\<rparr>"

subsection \<open>takeAuthenticatedScreenshot\<close>

text \<open>The parameters are taken after their defaults: a call without \<^verbatim>\<open>path\<close> passes
  \<^verbatim>\<open>/\<close>, a call without \<^verbatim>\<open>options\<close> passes the record with every field \<open>None\<close>, and
  a scrape without \<^verbatim>\<open>selectors\<close> passes the empty list. Numbers (viewport sizes and
  timeouts) are integers.\<close>

definition takeAuthenticatedScreenshot ::
  "'u service \<Rightarrow> browser \<Rightarrow> string \<Rightarrow> AuthenticatedBrowserOptions \<Rightarrow> 'u screenshot_result prog" where
  "takeAuthenticatedScreenshot this env pth options =
     andThen (getPlaywrightBrowser env) (\<lambda>_.
     andThen (newContext env
        \<lparr>ctx_viewport = Some (or_viewport (opt_viewport options) default_viewport),
         ctx_userAgent = Some (or_string (opt_userAgent options) default_userAgent)\<rparr>) (\<lambda>_.
     andThen (newPage env) (\<lambda>_.
     tryFinally
       (andThen (console_log (sym_camera @ '' Taking authenticated screenshot of '' @ pth)) (\<lambda>_.
        andThen (setExtraHTTPHeaders env bypassHeaders) (\<lambda>_.
        andThen (page_goto env (appBaseUrl this @ pth) networkidle) (\<lambda>_.
        andThen (tryCatch (waitForSelector env readinessMarker 5000)
                   (\<lambda>_. console_log warn_proceeding)) (\<lambda>_.
        andThen (page_screenshot env
                   \<lparr>fullPage = (opt_bypassAuth options \<noteq> Some False),
                    image_type = Some ''png''\<rparr>) (\<lambda>shot.
        andThen (page_url env) (\<lambda>u.
        andThen (page_title env) (\<lambda>t.
        andThen (page_viewportSize env) (\<lambda>vs.
        andThen (now_iso env) (\<lambda>ts.
        ret \<lparr>screenshot = ''data:image/png;base64,'' @ base64 shot,
             sr_timestamp = ts,
             sr_metadata = \<lparr>sm_url = u, sm_title = t, sm_viewportSize = vs,
                            sm_user = TEST_USER this\<rparr>\<rparr>))))))))))
       context_close)))"

subsection \<open>generateAuthenticatedPDF\<close>

definition generateAuthenticatedPDF ::
  "'u service \<Rightarrow> browser \<Rightarrow> string \<Rightarrow> AuthenticatedBrowserOptions \<Rightarrow> 'u pdf_result prog" where
  "generateAuthenticatedPDF this env pth options =
     andThen (getPlaywrightBrowser env) (\<lambda>_.
     andThen (newContext env
        \<lparr>ctx_viewport = Some (or_viewport (opt_viewport options) default_viewport),
         ctx_userAgent = None\<rparr>) (\<lambda>_.
     andThen (newPage env) (\<lambda>_.
     tryFinally
       (andThen (console_log (sym_page @ '' Generating authenticated PDF of '' @ pth)) (\<lambda>_.
        andThen (setExtraHTTPHeaders env bypassHeaders) (\<lambda>_.
        andThen (page_goto env (appBaseUrl this @ pth) networkidle) (\<lambda>_.
        andThen (tryCatch (waitForSelector env readinessMarker 5000)
                   (\<lambda>_. console_log warn_proceeding)) (\<lambda>_.
        andThen (page_pdf env a4_options) (\<lambda>doc.
        andThen (page_url env) (\<lambda>u.
        andThen (page_title env) (\<lambda>t.
        andThen (now_iso env) (\<lambda>ts.
        ret \<lparr>pdf = ''data:application/pdf;base64,'' @ base64 doc,
             pr_timestamp = ts,
             pr_metadata = \<lparr>pm_url = u, pm_title = t, pm_user = TEST_USER this\<rparr>\<rparr>)))))))))
       context_close)))"

subsection \<open>testUserFlow\<close>

definition action_name :: "action \<Rightarrow> string" where
  "action_name a =
     (case a of goto \<Rightarrow> ''goto'' | click \<Rightarrow> ''click'' | fill \<Rightarrow> ''fill''
      | screenshot_action \<Rightarrow> ''screenshot'' | wait \<Rightarrow> ''wait'')"

definition stepHeader :: "nat \<Rightarrow> flow_step \<Rightarrow> string" where
  "stepHeader index step = ''Step '' @ show_nat (index + 1) @ '': '' @ action_name (action step)"

text \<open>The arrays \<^verbatim>\<open>logs\<close> and \<^verbatim>\<open>screenshots\<close> are declared before the \<^verbatim>\<open>try\<close> and
  read in the \<^verbatim>\<open>catch\<close>, so the loop hands them on also when a step throws. One turn
  of the loop body: the outcome, the two arrays, the calls made.\<close>

definition flowStep ::
  "'u service \<Rightarrow> browser \<Rightarrow> nat \<Rightarrow> flow_step \<Rightarrow> string list \<Rightarrow> string list \<Rightarrow> event list
     \<Rightarrow> (string + unit) \<times> string list \<times> string list \<times> event list" where
  "flowStep this env index step lg shots h =
     (let lg1 = lg @ [stepHeader index step] in
      case action step of
        goto \<Rightarrow>
          (let fullUrl = appBaseUrl this @ or_string (path step) ''/'' in
           case page_goto env fullUrl networkidle h of
             (Inl e, es) \<Rightarrow> (Inl e, lg1, shots, es)
           | (Inr _, es) \<Rightarrow> (Inr (), lg1 @ [''Navigated to '' @ fullUrl], shots, es))
      | click \<Rightarrow>
          (case truthy (selector step) of
             None \<Rightarrow> (Inr (), lg1, shots, [])
           | Some s \<Rightarrow>
               (case page_click env s h of
                  (Inl e, es) \<Rightarrow> (Inl e, lg1, shots, es)
                | (Inr _, es) \<Rightarrow> (Inr (), lg1 @ [''Clicked '' @ s], shots, es)))
      | fill \<Rightarrow>
          (case (truthy (selector step), truthy (val step)) of
             (Some s, Some v) \<Rightarrow>
               (case page_fill env s v h of
                  (Inl e, es) \<Rightarrow> (Inl e, lg1, shots, es)
                | (Inr _, es) \<Rightarrow>
                    (Inr (), lg1 @ [''Filled '' @ s @ '' with value''], shots, es))
           | _ \<Rightarrow> (Inr (), lg1, shots, []))
      | screenshot_action \<Rightarrow>
          (case page_screenshot env \<lparr>fullPage = True, image_type = None\<rparr> h of
             (Inl e, es) \<Rightarrow> (Inl e, lg1, shots, es)
           | (Inr shot, es) \<Rightarrow>
               (Inr (), lg1 @ [''Screenshot taken''],
                shots @ [''data:image/png;base64,'' @ base64 shot], es))
      | wait \<Rightarrow>
          (case truthy (selector step) of
             Some s \<Rightarrow>
               (case waitForSelector env s (or_int (timeout step) 30000) h of
                  (Inl e, es) \<Rightarrow> (Inl e, lg1, shots, es)
                | (Inr _, es) \<Rightarrow> (Inr (), lg1 @ [''Waited for '' @ s], shots, es))
           | None \<Rightarrow>
               (case waitForTimeout env (or_int (timeout step) 1000) h of
                  (Inl e, es) \<Rightarrow> (Inl e, lg1, shots, es)
                | (Inr _, es) \<Rightarrow>
                    (Inr (),
                     lg1 @ [''Waited '' @ show_int (or_int (timeout step) 1000) @ ''ms''],
                     shots, es))))"

text \<open>\<^verbatim>\<open>for (const [index, step] of flowSteps.entries())\<close>\<close>

fun flowLoop ::
  "'u service \<Rightarrow> browser \<Rightarrow> (nat \<times> flow_step) list \<Rightarrow> string list \<Rightarrow> string list \<Rightarrow> event list
     \<Rightarrow> (string + unit) \<times> string list \<times> string list \<times> event list" where
  "flowLoop this env [] lg shots h = (Inr (), lg, shots, [])"
| "flowLoop this env ((index, step) # rest) lg shots h =
     (case flowStep this env index step lg shots h of
        (Inl e, lg', shots', es) \<Rightarrow> (Inl e, lg', shots', es)
      | (Inr _, lg', shots', es) \<Rightarrow>
          (case flowLoop this env rest lg' shots' (h @ es) of
             (r, lg'', shots'', es') \<Rightarrow> (r, lg'', shots'', es @ es')))"

definition flow_start :: string where
  "flow_start = sym_masks @ '' Starting authenticated user flow test''"

definition flow_failed :: string where
  "flow_failed = sym_cross @ '' User flow test failed:''"

text \<open>The \<^verbatim>\<open>try\<close> block up to its \<^verbatim>\<open>return\<close>.\<close>

definition flowTry ::
  "'u service \<Rightarrow> browser \<Rightarrow> flow_step list \<Rightarrow> event list
     \<Rightarrow> (string + unit) \<times> string list \<times> string list \<times> event list" where
  "flowTry this env flowSteps h =
     (let es0 = [Did (ConsoleLog flow_start)] in
      case setExtraHTTPHeaders env bypassHeaders (h @ es0) of
        (Inl e, es1) \<Rightarrow> (Inl e, [], [], es0 @ es1)
      | (Inr _, es1) \<Rightarrow>
          (case flowLoop this env (enumerate 0 flowSteps) [] [] (h @ es0 @ es1) of
             (r, lg, shots, es2) \<Rightarrow> (r, lg, shots, es0 @ es1 @ es2)))"

text \<open>The \<^verbatim>\<open>try\<close> with its \<^verbatim>\<open>catch\<close>: both branches return a result.\<close>

definition flowBody :: "'u service \<Rightarrow> browser \<Rightarrow> flow_step list \<Rightarrow> flow_result prog" where
  "flowBody this env flowSteps h =
     (case flowTry this env flowSteps h of
        (Inr _, lg, shots, es) \<Rightarrow>
          (Inr \<lparr>success = True, screenshots = shots, logs = lg,
                fr_timestamp = r_now env (h @ es)\<rparr>, es)
      | (Inl e, lg, shots, es) \<Rightarrow>
          (let es' = es @ [Did (ConsoleError flow_failed e)] in
           (Inr \<lparr>success = False, screenshots = shots, logs = lg @ [''Error: '' @ e],
                 fr_timestamp = r_now env (h @ es')\<rparr>, es')))"

definition testUserFlow ::
  "'u service \<Rightarrow> browser \<Rightarrow> flow_step list \<Rightarrow> AuthenticatedBrowserOptions \<Rightarrow> flow_result prog" where
  "testUserFlow this env flowSteps options =
     andThen (getPlaywrightBrowser env) (\<lambda>_.
     andThen (newContext env
        \<lparr>ctx_viewport = Some (or_viewport (opt_viewport options) default_viewport),
         ctx_userAgent = None\<rparr>) (\<lambda>_.
     andThen (newPage env) (\<lambda>_.
     tryFinally (flowBody this env flowSteps) context_close)))"

subsection \<open>scrapeAuthenticatedContent\<close>

text \<open>\<^verbatim>\<open>for (const selector of selectors)\<close>, each turn with its own
  \<^verbatim>\<open>try\<close>/\<^verbatim>\<open>catch\<close>.\<close>

fun scrapeLoop ::
  "browser \<Rightarrow> string list \<Rightarrow> (string \<times> scraped) list \<Rightarrow> (string \<times> scraped) list prog" where
  "scrapeLoop env [] d h = (Inr d, [])"
| "scrapeLoop env (sel # rest) d h =
     (case tryCatch
             (andThen (allTextContents env sel) (\<lambda>elements.
              ret (AList.update sel (Texts elements) d)))
             (\<lambda>e. ret (AList.update sel (Str (''Error: '' @ e)) d)) h of
        (Inl e, es) \<Rightarrow> (Inl e, es)
      | (Inr d', es) \<Rightarrow>
          (case scrapeLoop env rest d' (h @ es) of (r, es') \<Rightarrow> (r, es @ es')))"

definition userInfoSelectors :: "string list" where
  "userInfoSelectors =
     [''[data-testid=\"user-avatar\"]'', ''[data-testid=\"user-name\"]'',
      ''[data-testid=\"energy-display\"]'', ''[data-testid=\"aura-level\"]'']"

fun userInfoLoop ::
  "browser \<Rightarrow> string list \<Rightarrow> (string \<times> string option) list
     \<Rightarrow> (string \<times> string option) list prog" where
  "userInfoLoop env [] ui h = (Inr ui, [])"
| "userInfoLoop env (sel # rest) ui h =
     (case tryCatch
             (andThen (isVisible env sel) (\<lambda>visible.
              if visible
              then andThen (textContent env sel) (\<lambda>t. ret (AList.update sel t ui))
              else ret ui))
             (\<lambda>_. ret ui) h of
        (Inl e, es) \<Rightarrow> (Inl e, es)
      | (Inr ui', es) \<Rightarrow>
          (case userInfoLoop env rest ui' (h @ es) of (r, es') \<Rightarrow> (r, es @ es')))"

definition extractUserInfo :: "browser \<Rightarrow> (string \<times> string option) list prog" where
  "extractUserInfo env = tryCatch (userInfoLoop env userInfoSelectors []) (\<lambda>_. ret [])"

definition scrapeAuthenticatedContent ::
  "'u service \<Rightarrow> browser \<Rightarrow> string \<Rightarrow> string list \<Rightarrow> AuthenticatedBrowserOptions
     \<Rightarrow> 'u scrape_result prog" where
  "scrapeAuthenticatedContent this env pth selectors options =
     andThen (getPlaywrightBrowser env) (\<lambda>_.
     andThen (newContext env \<lparr>ctx_viewport = None, ctx_userAgent = None\<rparr>) (\<lambda>_.
     andThen (newPage env) (\<lambda>_.
     tryFinally
       (andThen (console_log (sym_spider @ '' Scraping authenticated content from '' @ pth)) (\<lambda>_.
        andThen (setExtraHTTPHeaders env bypassHeaders) (\<lambda>_.
        andThen (page_goto env (appBaseUrl this @ pth) networkidle) (\<lambda>_.
        andThen (tryCatch (waitForSelector env readinessMarker 5000)
                   (\<lambda>_. console_log warn_plain)) (\<lambda>_.
        andThen (scrapeLoop env selectors []) (\<lambda>d.
        andThen (page_title env) (\<lambda>t1.
        andThen (page_url env) (\<lambda>u1.
        andThen (extractUserInfo env) (\<lambda>ui.
        andThen (page_url env) (\<lambda>u2.
        andThen (page_title env) (\<lambda>t2.
        andThen (now_iso env) (\<lambda>ts.
        ret \<lparr>data = AList.update ''userInfo'' (Obj ui)
                      (AList.update ''url'' (Str u1)
                        (AList.update ''title'' (Str t1) d)),
             cr_timestamp = ts,
             cr_metadata = \<lparr>cm_url = u2, cm_title = t2, cm_authenticated = True,
                            cm_user = TEST_USER this\<rparr>\<rparr>))))))))))))
       context_close)))"

subsection \<open>Observations on a list of calls\<close>

definition opened :: "event list \<Rightarrow> nat" where
  "opened es = length (filter (\<lambda>ev. case ev of Did (NewContext _) \<Rightarrow> True | _ \<Rightarrow> False) es)"

definition closed :: "event list \<Rightarrow> nat" where
  "closed es = length (filter (\<lambda>ev. ev = Did CloseContext) es)"

text \<open>A program that neither opens nor closes a context.\<close>

definition noContextCalls :: "'a prog \<Rightarrow> bool" where
  "noContextCalls m = (\<forall>h. opened (snd (m h)) = 0 \<and> closed (snd (m h)) = 0)"

definition callOf :: "event \<Rightarrow> call" where
  "callOf ev = (case ev of Did c \<Rightarrow> c | Threw c _ \<Rightarrow> c)"

definition attempted :: "call \<Rightarrow> event list \<Rightarrow> bool" where
  "attempted c es = list_ex (\<lambda>ev. callOf ev = c) es"

text \<open>The error \<open>e\<close> was thrown by a call other than \<open>c\<close>.\<close>

definition thrownElsewhere :: "call \<Rightarrow> string \<Rightarrow> event list \<Rightarrow> bool" where
  "thrownElsewhere c e es =
     list_ex (\<lambda>ev. case ev of Did _ \<Rightarrow> False | Threw c' e' \<Rightarrow> c' \<noteq> c \<and> e' = e) es"

definition readinessWait :: call where
  "readinessWait = WaitForSelector readinessMarker 5000"

text \<open>The calls that follow the readiness wait that threw \<open>e\<close>, if there is one.\<close>

fun afterWaitFailure :: "string \<Rightarrow> event list \<Rightarrow> event list option" where
  "afterWaitFailure e [] = None"
| "afterWaitFailure e (ev # es) =
     (if ev = Threw readinessWait e then Some es else afterWaitFailure e es)"

definition onlyWaitThrew :: "event list \<Rightarrow> bool" where
  "onlyWaitThrew es =
     list_all (\<lambda>ev. case ev of Did _ \<Rightarrow> True | Threw c _ \<Rightarrow> c = readinessWait) es"

text \<open>What a run owes to a readiness wait that threw \<open>e\<close>: the next call logs the warning and
  the capture call is attempted after it; an error that the run ends with was thrown by a
  call other than the wait; and the run returns a result if no other call threw.\<close>

definition softWaitFailure ::
  "string \<Rightarrow> string \<Rightarrow> call \<Rightarrow> (string + 'a) \<times> event list \<Rightarrow> bool" where
  "softWaitFailure e warning capture run =
     ((case afterWaitFailure e (snd run) of
         Some (w # b) \<Rightarrow> w = Did (ConsoleLog warning) \<and> attempted capture b
       | _ \<Rightarrow> False)
      \<and> (case fst run of
            Inl e' \<Rightarrow> thrownElsewhere readinessWait e' (snd run) \<and> \<not> onlyWaitThrew (snd run)
          | Inr _ \<Rightarrow> True))"






text \<open>The calls with which \<^verbatim>\<open>testUserFlow\<close> reaches its loop when none of them throws.\<close>

definition flowOpening :: "AuthenticatedBrowserOptions \<Rightarrow> event list" where
  "flowOpening options =
     [Did GetPlaywrightBrowser,
      Did (NewContext \<lparr>ctx_viewport = Some (or_viewport (opt_viewport options) default_viewport),
                       ctx_userAgent = None\<rparr>),
      Did NewPage,
      Did (ConsoleLog flow_start),
      Did (SetExtraHTTPHeaders bypassHeaders)]"

subsection \<open>Concrete browsers and inputs\<close>

text \<open>A browser in which every call returns, except a click on \<^verbatim>\<open>#missing\<close> and the text
  contents of \<^verbatim>\<open>.nonexistent\<close>.\<close>

definition demo_browser :: browser where
  "demo_browser =
     \<lparr>r_getPlaywrightBrowser = (\<lambda>_. Inr ()),
      r_newContext = (\<lambda>_ _. Inr ()),
      r_newPage = (\<lambda>_. Inr ()),
      r_setExtraHTTPHeaders = (\<lambda>_ _. Inr ()),
      r_goto = (\<lambda>_ _ _. Inr ()),
      r_waitForSelector = (\<lambda>_ _ _. Inr ()),
      r_screenshot = (\<lambda>_ _. Inr [0x89, 0x50, 0x4E]),
      r_pdf = (\<lambda>_ _. Inr [0x25, 0x50, 0x44]),
      r_title = (\<lambda>_. Inr ''Feed''),
      r_url = (\<lambda>_. ''http://localhost:5000/feed''),
      r_viewportSize = (\<lambda>_. Some \<lparr>width = 1920, height = 1080\<rparr>),
      r_click = (\<lambda>_ s. if s = ''#missing'' then Inl ''Error: no element'' else Inr ()),
      r_fill = (\<lambda>_ _ _. Inr ()),
      r_waitForTimeout = (\<lambda>_ _. Inr ()),
      r_allTextContents =
        (\<lambda>_ s. if s = ''.nonexistent'' then Inl ''Error: bad selector''
               else Inr [''First post'', ''Second post'']),
      r_isVisible = (\<lambda>_ _. Inr False),
      r_textContent = (\<lambda>_ _. Inr None),
      r_now = (\<lambda>_. ''2024-01-01T00:00:00.000Z'')\<rparr>"

text \<open>The same browser on a page without the readiness marker.\<close>

definition demo_no_marker :: browser where
  "demo_no_marker = demo_browser\<lparr>r_waitForSelector := (\<lambda>_ _ _. Inl ''TimeoutError'')\<rparr>"

text \<open>The same browser when it cannot open a page in the new context.\<close>

definition demo_no_page :: browser where
  "demo_no_page = demo_browser\<lparr>r_newPage := (\<lambda>_. Inl ''Error: Target closed'')\<rparr>"

definition demo_service :: "string service" where
  "demo_service = \<lparr>appBaseUrl = ''http://localhost:5000'', TEST_USER = ''test-user''\<rparr>"

definition no_options :: AuthenticatedBrowserOptions where
  "no_options =
     \<lparr>opt_viewport = None, opt_userAgent = None, opt_bypassAuth = None, opt_timeout = None\<rparr>"

definition phone_options :: AuthenticatedBrowserOptions where
  "phone_options =
     \<lparr>opt_viewport = Some \<lparr>width = 390, height = 844\<rparr>, opt_userAgent = Some ''PhoneBot'',
      opt_bypassAuth = None, opt_timeout = None\<rparr>"

definition step_goto :: "string \<Rightarrow> flow_step" where
  "step_goto p = \<lparr>action = goto, selector = None, val = None, path = Some p, timeout = None\<rparr>"

definition step_click :: "string option \<Rightarrow> flow_step" where
  "step_click s = \<lparr>action = click, selector = s, val = None, path = None, timeout = None\<rparr>"

definition step_screenshot :: flow_step where
  "step_screenshot =
     \<lparr>action = screenshot_action, selector = None, val = None, path = None, timeout = None\<rparr>"




text \<open>A report printed in the demo browser.\<close>

definition demo_pdf_result :: "string pdf_result" where
  "demo_pdf_result =
     \<lparr>pdf = ''data:application/pdf;base64,JVBE'',
      pr_timestamp = ''2024-01-01T00:00:00.000Z'',
      pr_metadata = \<lparr>pm_url = ''http://localhost:5000/feed'', pm_title = ''Feed'',
                     pm_user = ''test-user''\<rparr>\<rparr>"

definition demo_pdf_calls :: "event list" where
  "demo_pdf_calls =
     [Did GetPlaywrightBrowser,
      Did (NewContext \<lparr>ctx_viewport = Some \<lparr>width = 1920, height = 1080\<rparr>, ctx_userAgent = None\<rparr>),
      Did NewPage,
      Did (ConsoleLog (sym_page @ '' Generating authenticated PDF of /report'')),
      Did (SetExtraHTTPHeaders bypassHeaders),
      Did (Goto ''http://localhost:5000/report'' networkidle),
      Did (WaitForSelector readinessMarker 5000),
      Did (Pdf a4_options),
      Did Title,
      Did CloseContext]"

text \<open>Two scrapes of the feed in the demo browser: one for the selectors \<^verbatim>\<open>.post-title\<close>
  and \<^verbatim>\<open>.nonexistent\<close>, one for the selector \<^verbatim>\<open>title\<close>.\<close>

definition scrape_opening :: "event list" where
  "scrape_opening =
     [Did GetPlaywrightBrowser,
      Did (NewContext \<lparr>ctx_viewport = None, ctx_userAgent = None\<rparr>),
      Did NewPage,
      Did (ConsoleLog (sym_spider @ '' Scraping authenticated content from /feed'')),
      Did (SetExtraHTTPHeaders bypassHeaders),
      Did (Goto ''http://localhost:5000/feed'' networkidle),
      Did (WaitForSelector readinessMarker 5000)]"

definition scrape_closing :: "event list" where
  "scrape_closing =
     Did Title # map (\<lambda>s. Did (IsVisible s)) userInfoSelectors @ [Did Title, Did CloseContext]"

definition demo_page_info :: "(string \<times> scraped) list" where
  "demo_page_info =
     [(''title'', Str ''Feed''), (''url'', Str ''http://localhost:5000/feed''),
      (''userInfo'', Obj [])]"

definition demo_scrape_metadata :: "string scrape_metadata" where
  "demo_scrape_metadata =
     \<lparr>cm_url = ''http://localhost:5000/feed'', cm_title = ''Feed'', cm_authenticated = True,
      cm_user = ''test-user''\<rparr>"

definition demo_feed_result :: "string scrape_result" where
  "demo_feed_result =
     \<lparr>data = [(''.post-title'', Texts [''First post'', ''Second post'']),
              (''.nonexistent'', Str ''Error: Error: bad selector'')] @ demo_page_info,
      cr_timestamp = ''2024-01-01T00:00:00.000Z'',
      cr_metadata = demo_scrape_metadata\<rparr>"

definition demo_feed_calls :: "event list" where
  "demo_feed_calls =
     scrape_opening @
     [Did (AllTextContents ''.post-title''),
      Threw (AllTextContents ''.nonexistent'') ''Error: bad selector''] @
     scrape_closing"

definition demo_title_result :: "string scrape_result" where
  "demo_title_result =
     \<lparr>data = demo_page_info, cr_timestamp = ''2024-01-01T00:00:00.000Z'',
      cr_metadata = demo_scrape_metadata\<rparr>"

definition demo_title_calls :: "event list" where
  "demo_title_calls = scrape_opening @ [Did (AllTextContents ''title'')] @ scrape_closing"

section \<open>Properties\<close>

subsection \<open>Unfolding the programs\<close>

lemmas collaborator_defs =
  getPlaywrightBrowser_def newContext_def newPage_def setExtraHTTPHeaders_def
  page_goto_def waitForSelector_def page_screenshot_def page_pdf_def page_title_def page_url_def
  page_viewportSize_def page_click_def page_fill_def waitForTimeout_def allTextContents_def
  isVisible_def textContent_def now_iso_def context_close_def console_log_def console_error_def

lemmas prog_defs = ret_def andThen_def tryCatch_def tryFinally_def perform_def observe_def

lemmas demo_defs =
  demo_browser_def demo_no_marker_def demo_no_page_def demo_service_def no_options_def
  phone_options_def step_goto_def step_click_def step_screenshot_def

lemmas flow_defs =
  testUserFlow_def flowBody_def flowTry_def flowStep_def stepHeader_def action_name_def
  or_string_def or_viewport_def or_int_def truthy_def flow_start_def flow_failed_def
  enumerate_eq_zip upt_rec flowOpening_def default_viewport_def digit_def Let_def

subsection \<open>Opening and closing the browsing context\<close>

text \<open>
  Claim C1 says that every call of the four methods opens exactly one context and closes
  exactly one, also when page creation throws. In all four methods
  \<^verbatim>\<open>context.newPage()\<close> stands between \<^verbatim>\<open>browser.newContext\<close> and the \<^verbatim>\<open>try\<close> whose
  \<^verbatim>\<open>finally\<close> closes the context. In a browser whose \<^verbatim>\<open>newPage\<close> throws, each method
  opens one context and closes none: the call ends after the failed \<^verbatim>\<open>newPage\<close>.
\<close>

theorem newPage_failure_leaks_context:
  "snd (takeAuthenticatedScreenshot demo_service demo_no_page ''/'' no_options []) =
     [Did GetPlaywrightBrowser,
      Did (NewContext \<lparr>ctx_viewport = Some \<lparr>width = 1920, height = 1080\<rparr>,
                       ctx_userAgent = Some default_userAgent\<rparr>),
      Threw NewPage ''Error: Target closed'']
   \<and> opened (snd (takeAuthenticatedScreenshot demo_service demo_no_page ''/'' no_options [])) = 1
   \<and> closed (snd (takeAuthenticatedScreenshot demo_service demo_no_page ''/'' no_options [])) = 0
   \<and> opened (snd (generateAuthenticatedPDF demo_service demo_no_page ''/'' no_options [])) = 1
   \<and> closed (snd (generateAuthenticatedPDF demo_service demo_no_page ''/'' no_options [])) = 0
   \<and> opened (snd (testUserFlow demo_service demo_no_page [] no_options [])) = 1
   \<and> closed (snd (testUserFlow demo_service demo_no_page [] no_options [])) = 0
   \<and> opened (snd (scrapeAuthenticatedContent demo_service demo_no_page ''/'' [] no_options [])) = 1
   \<and> closed (snd (scrapeAuthenticatedContent demo_service demo_no_page ''/'' [] no_options [])) = 0"
  by (simp add: takeAuthenticatedScreenshot_def generateAuthenticatedPDF_def testUserFlow_def
      scrapeAuthenticatedContent_def collaborator_defs prog_defs demo_defs opened_def closed_def
      or_viewport_def or_string_def default_viewport_def default_userAgent_def)

subsection \<open>The options of the new context\<close>

text \<open>
  Claim C4 says that every method creates its context with the viewport and the user agent
  of \<open>options\<close>, or the defaults. Only \<^verbatim>\<open>takeAuthenticatedScreenshot\<close> does. Called with
  a viewport of 390 by 844 and the user agent \<^verbatim>\<open>PhoneBot\<close>,
  \<^verbatim>\<open>scrapeAuthenticatedContent\<close> calls \<^verbatim>\<open>newContext()\<close> with neither, and
  \<^verbatim>\<open>generateAuthenticatedPDF\<close> and \<^verbatim>\<open>testUserFlow\<close> pass the viewport and no user
  agent.
\<close>

theorem context_options_ignored:
  "Did (NewContext \<lparr>ctx_viewport = None, ctx_userAgent = None\<rparr>)
     \<in> set (snd (scrapeAuthenticatedContent demo_service demo_browser ''/feed'' [] phone_options []))
   \<and> opened (snd (scrapeAuthenticatedContent demo_service demo_browser ''/feed'' [] phone_options [])) = 1
   \<and> Did (NewContext \<lparr>ctx_viewport = Some \<lparr>width = 390, height = 844\<rparr>, ctx_userAgent = None\<rparr>)
     \<in> set (snd (generateAuthenticatedPDF demo_service demo_browser ''/feed'' phone_options []))
   \<and> opened (snd (generateAuthenticatedPDF demo_service demo_browser ''/feed'' phone_options [])) = 1
   \<and> Did (NewContext \<lparr>ctx_viewport = Some \<lparr>width = 390, height = 844\<rparr>, ctx_userAgent = None\<rparr>)
     \<in> set (snd (testUserFlow demo_service demo_browser [] phone_options []))
   \<and> opened (snd (testUserFlow demo_service demo_browser [] phone_options [])) = 1
   \<and> Did (NewContext \<lparr>ctx_viewport = Some \<lparr>width = 390, height = 844\<rparr>,
                        ctx_userAgent = Some ''PhoneBot''\<rparr>)
     \<in> set (snd (takeAuthenticatedScreenshot demo_service demo_browser ''/feed'' phone_options []))"
  by (simp add: takeAuthenticatedScreenshot_def generateAuthenticatedPDF_def
      scrapeAuthenticatedContent_def extractUserInfo_def userInfoSelectors_def
      collaborator_defs prog_defs demo_defs opened_def closed_def flow_defs)

subsection \<open>The steps of a flow\<close>



subsection \<open>A step that throws\<close>






subsection \<open>Logs and screenshots of a flow\<close>











subsection \<open>The readiness wait\<close>

text \<open>The selector loop and the collection of the user info catch every error of their
  calls: they return, and they make no other call than their own.\<close>

lemma scrapeLoop_calls:
  assumes "scrapeLoop env sels d h = (r, es)"
  shows "(\<exists>d'. r = Inr d') \<and> (\<forall>ev\<in>set es. \<exists>s. callOf ev = AllTextContents s)"
  using assms
proof (induction sels arbitrary: d h r es)
  case Nil
  then show ?case by auto
next
  case (Cons sel sels)
  show ?case
  proof (cases "r_allTextContents env h sel")
    case (Inl e)
    obtain r2 es2 where rest:
      "scrapeLoop env sels (AList.update sel (Str (''Error: '' @ e)) d)
         (h @ [Threw (AllTextContents sel) e]) = (r2, es2)"
      by (cases "scrapeLoop env sels (AList.update sel (Str (''Error: '' @ e)) d)
         (h @ [Threw (AllTextContents sel) e])")
    with Cons.prems Inl have "r = r2" "es = Threw (AllTextContents sel) e # es2"
      by (simp_all add: allTextContents_def prog_defs)
    with Cons.IH [OF rest] show ?thesis by (auto simp: callOf_def)
  next
    case (Inr elements)
    obtain r2 es2 where rest:
      "scrapeLoop env sels (AList.update sel (Texts elements) d)
         (h @ [Did (AllTextContents sel)]) = (r2, es2)"
      by (cases "scrapeLoop env sels (AList.update sel (Texts elements) d)
         (h @ [Did (AllTextContents sel)])")
    with Cons.prems Inr have "r = r2" "es = Did (AllTextContents sel) # es2"
      by (simp_all add: allTextContents_def prog_defs)
    with Cons.IH [OF rest] show ?thesis by (auto simp: callOf_def)
  qed
qed

lemma userInfoLoop_calls:
  assumes "userInfoLoop env sels ui h = (r, es)"
  shows "(\<exists>ui'. r = Inr ui')
         \<and> (\<forall>ev\<in>set es. \<exists>s. callOf ev = IsVisible s \<or> callOf ev = TextContent s)"
  using assms
proof (induction sels arbitrary: ui h r es)
  case Nil
  then show ?case by auto
next
  case (Cons sel sels)
  obtain r1 es1 where turn:
    "tryCatch
       (andThen (isVisible env sel) (\<lambda>visible.
          if visible then andThen (textContent env sel) (\<lambda>t. ret (AList.update sel t ui))
          else ret ui))
       (\<lambda>_. ret ui) h = (r1, es1)"
    by (metis surj_pair)
  then have one: "(\<exists>ui1. r1 = Inr ui1)
      \<and> (\<forall>ev\<in>set es1. \<exists>s. callOf ev = IsVisible s \<or> callOf ev = TextContent s)"
    by (auto simp: isVisible_def textContent_def prog_defs callOf_def
        split: sum.splits if_splits prod.splits)
  then obtain ui1 where r1: "r1 = Inr ui1" by blast
  obtain r2 es2 where rest: "userInfoLoop env sels ui1 (h @ es1) = (r2, es2)"
    by (metis surj_pair)
  with Cons.prems turn r1 have "r = r2" "es = es1 @ es2" by simp_all
  with Cons.IH [OF rest] one show ?case by auto
qed

lemma extractUserInfo_calls:
  assumes "extractUserInfo env h = (r, es)"
  shows "(\<exists>ui. r = Inr ui)
         \<and> (\<forall>ev\<in>set es. \<exists>s. callOf ev = IsVisible s \<or> callOf ev = TextContent s)"
proof -
  obtain r1 es1 where loop: "userInfoLoop env userInfoSelectors [] h = (r1, es1)"
    by (metis surj_pair)
  from userInfoLoop_calls [OF loop] loop assms show ?thesis
    by (auto simp: extractUserInfo_def tryCatch_def)
qed

lemma scrapeLoop_no_wait:
  assumes "scrapeLoop env sels d h = (r, es)"
  shows "Threw readinessWait e \<notin> set es \<and> r \<noteq> Inl e'"
  using scrapeLoop_calls [OF assms] by (auto simp: callOf_def readinessWait_def)

lemma extractUserInfo_no_wait:
  assumes "extractUserInfo env h = (r, es)"
  shows "Threw readinessWait e \<notin> set es \<and> r \<noteq> Inl e'"
  using extractUserInfo_calls [OF assms] by (auto simp: callOf_def readinessWait_def)

lemma thrownElsewhere_iff:
  "thrownElsewhere c e es \<longleftrightarrow> (\<exists>c'. c' \<noteq> c \<and> Threw c' e \<in> set es)"
proof
  assume "thrownElsewhere c e es"
  then obtain ev where ev: "ev \<in> set es"
    "(case ev of Did _ \<Rightarrow> False | Threw c' e' \<Rightarrow> c' \<noteq> c \<and> e' = e)"
    by (auto simp: thrownElsewhere_def list_ex_iff)
  show "\<exists>c'. c' \<noteq> c \<and> Threw c' e \<in> set es"
  proof (cases ev)
    case (Did x)
    with ev show ?thesis by simp
  next
    case (Threw c' e')
    with ev show ?thesis by auto
  qed
next
  assume "\<exists>c'. c' \<noteq> c \<and> Threw c' e \<in> set es"
  then show "thrownElsewhere c e es"
    by (auto simp: thrownElsewhere_def list_ex_iff intro!: bexI)
qed

lemma afterWaitFailure_first:
  assumes "Threw readinessWait e \<notin> set a"
  shows "afterWaitFailure e (a @ Threw readinessWait e # b) = Some b"
  using assms by (induction a) auto

lemma softWaitFailure_intro:
  assumes calls: "snd run = a @ Threw readinessWait e # Did (ConsoleLog warning) # b"
    and first: "Threw readinessWait e \<notin> set a"
    and capture: "attempted capture b"
    and errors: "\<forall>e'. fst run = Inl e' \<longrightarrow> thrownElsewhere readinessWait e' (snd run)"
  shows "softWaitFailure e warning capture run"
proof -
  have "afterWaitFailure e (snd run) = Some (Did (ConsoleLog warning) # b)"
    using calls first by (simp add: afterWaitFailure_first)
  moreover have "thrownElsewhere readinessWait e' (snd run) \<Longrightarrow> \<not> onlyWaitThrew (snd run)" for e'
    unfolding thrownElsewhere_iff onlyWaitThrew_def list_all_iff by force
  ultimately show ?thesis
    using capture errors by (auto simp: softWaitFailure_def split: sum.splits)
qed

lemma after_six:
  assumes "P b" and "t \<notin> set [x1, x2, x3, x4, x5, x6]"
  shows "\<exists>a b'. x1 # x2 # x3 # x4 # x5 # x6 # t # w # b = a @ t # w # b' \<and> t \<notin> set a \<and> P b'"
  using assms by (intro exI [of _ "[x1, x2, x3, x4, x5, x6]"] exI [of _ b]) simp

lemmas soft_defs = readinessWait_def thrownElsewhere_def attempted_def callOf_def

lemma screenshot_wait_calls:
  assumes "takeAuthenticatedScreenshot this env pth options h = (res, es)"
    and "Threw readinessWait e \<in> set es"
  shows "(\<exists>a b. es = a @ Threw readinessWait e # Did (ConsoleLog warn_proceeding) # b
            \<and> Threw readinessWait e \<notin> set a
            \<and> attempted (Screenshot \<lparr>fullPage = (opt_bypassAuth options \<noteq> Some False),
                                      image_type = Some ''png''\<rparr>) b)
         \<and> (\<forall>e'. res = Inl e' \<longrightarrow> thrownElsewhere readinessWait e' es)"
  using assms
  unfolding takeAuthenticatedScreenshot_def collaborator_defs prog_defs
  by (auto simp: soft_defs split: sum.splits prod.splits intro!: after_six)

lemma pdf_wait_calls:
  assumes "generateAuthenticatedPDF this env pth options h = (res, es)"
    and "Threw readinessWait e \<in> set es"
  shows "(\<exists>a b. es = a @ Threw readinessWait e # Did (ConsoleLog warn_proceeding) # b
            \<and> Threw readinessWait e \<notin> set a
            \<and> attempted (Pdf a4_options) b)
         \<and> (\<forall>e'. res = Inl e' \<longrightarrow> thrownElsewhere readinessWait e' es)"
  using assms
  unfolding generateAuthenticatedPDF_def collaborator_defs prog_defs
  by (auto simp: soft_defs split: sum.splits prod.splits intro!: after_six)

lemma scrape_wait_calls:
  assumes "scrapeAuthenticatedContent this env pth sels options h = (res, es)"
    and "Threw readinessWait e \<in> set es"
  shows "(\<exists>a b. es = a @ Threw readinessWait e # Did (ConsoleLog warn_plain) # b
            \<and> Threw readinessWait e \<notin> set a
            \<and> attempted Title b)
         \<and> (\<forall>e'. res = Inl e' \<longrightarrow> thrownElsewhere readinessWait e' es)"
  using assms
  unfolding scrapeAuthenticatedContent_def collaborator_defs prog_defs
  by (auto simp: soft_defs split: sum.splits prod.splits intro!: after_six
      dest: scrapeLoop_no_wait [unfolded readinessWait_def]
            extractUserInfo_no_wait [unfolded readinessWait_def])

lemma screenshot_wait_soft:
  assumes "Threw readinessWait e \<in> set (snd (takeAuthenticatedScreenshot this env pth options h))"
  shows "softWaitFailure e warn_proceeding
           (Screenshot \<lparr>fullPage = (opt_bypassAuth options \<noteq> Some False),
                        image_type = Some ''png''\<rparr>)
           (takeAuthenticatedScreenshot this env pth options h)"
proof -
  obtain res es where run: "takeAuthenticatedScreenshot this env pth options h = (res, es)"
    by (metis surj_pair)
  have mem: "Threw readinessWait e \<in> set es"
    using assms run by simp
  from screenshot_wait_calls [OF run mem] obtain a b where
    "es = a @ Threw readinessWait e # Did (ConsoleLog warn_proceeding) # b"
    "Threw readinessWait e \<notin> set a" "attempted (Screenshot \<lparr>fullPage = (opt_bypassAuth options \<noteq> Some False),
                                      image_type = Some ''png''\<rparr>) b"
    "\<forall>e'. res = Inl e' \<longrightarrow> thrownElsewhere readinessWait e' es"
    by blast
  then show ?thesis
    using run by (intro softWaitFailure_intro [of _ a e _ b]) simp_all
qed

lemma pdf_wait_soft:
  assumes "Threw readinessWait e \<in> set (snd (generateAuthenticatedPDF this env pth options h))"
  shows "softWaitFailure e warn_proceeding (Pdf a4_options)
           (generateAuthenticatedPDF this env pth options h)"
proof -
  obtain res es where run: "generateAuthenticatedPDF this env pth options h = (res, es)"
    by (metis surj_pair)
  have mem: "Threw readinessWait e \<in> set es"
    using assms run by simp
  from pdf_wait_calls [OF run mem] obtain a b where
    "es = a @ Threw readinessWait e # Did (ConsoleLog warn_proceeding) # b"
    "Threw readinessWait e \<notin> set a" "attempted (Pdf a4_options) b"
    "\<forall>e'. res = Inl e' \<longrightarrow> thrownElsewhere readinessWait e' es"
    by blast
  then show ?thesis
    using run by (intro softWaitFailure_intro [of _ a e _ b]) simp_all
qed

lemma scrape_wait_soft:
  assumes "Threw readinessWait e \<in> set (snd (scrapeAuthenticatedContent this env pth sels options h))"
  shows "softWaitFailure e warn_plain Title
           (scrapeAuthenticatedContent this env pth sels options h)"
proof -
  obtain res es where run: "scrapeAuthenticatedContent this env pth sels options h = (res, es)"
    by (metis surj_pair)
  have mem: "Threw readinessWait e \<in> set es"
    using assms run by simp
  from scrape_wait_calls [OF run mem] obtain a b where
    "es = a @ Threw readinessWait e # Did (ConsoleLog warn_plain) # b"
    "Threw readinessWait e \<notin> set a" "attempted Title b"
    "\<forall>e'. res = Inl e' \<longrightarrow> thrownElsewhere readinessWait e' es"
    by blast
  then show ?thesis
    using run by (intro softWaitFailure_intro [of _ a e _ b]) simp_all
qed

text \<open>
  Claim C5: in the three capture methods a readiness wait that times out or fails is not an
  error of the method. When the wait for the marker
  \<^verbatim>\<open>[data-testid="authenticated-content"]\<close> (timeout 5000) throws, the next call logs the
  warning, the capture is attempted after it (the screenshot, the PDF, the reading of the
  page for the scrape), an error that the method ends with comes from another call than the
  wait, and the method returns its result when no other call throws.
\<close>

theorem readiness_wait_failure_is_soft:
  "(Threw readinessWait e \<in> set (snd (takeAuthenticatedScreenshot this env pth options h)) \<longrightarrow>
      softWaitFailure e warn_proceeding
        (Screenshot \<lparr>fullPage = (opt_bypassAuth options \<noteq> Some False), image_type = Some ''png''\<rparr>)
        (takeAuthenticatedScreenshot this env pth options h))
   \<and> (Threw readinessWait e \<in> set (snd (generateAuthenticatedPDF this env pth options h)) \<longrightarrow>
      softWaitFailure e warn_proceeding (Pdf a4_options)
        (generateAuthenticatedPDF this env pth options h))
   \<and> (Threw readinessWait e \<in> set (snd (scrapeAuthenticatedContent this env pth sels options h)) \<longrightarrow>
      softWaitFailure e warn_plain Title
        (scrapeAuthenticatedContent this env pth sels options h))"
  using screenshot_wait_soft pdf_wait_soft scrape_wait_soft by blast

theorem readiness_wait_failure_is_soft_witness:
  "Threw readinessWait ''TimeoutError''
     \<in> set (snd (takeAuthenticatedScreenshot demo_service demo_no_marker ''/profile'' no_options []))
   \<and> softWaitFailure ''TimeoutError'' warn_proceeding
        (Screenshot \<lparr>fullPage = (opt_bypassAuth no_options \<noteq> Some False), image_type = Some ''png''\<rparr>)
        (takeAuthenticatedScreenshot demo_service demo_no_marker ''/profile'' no_options [])
   \<and> fst (takeAuthenticatedScreenshot demo_service demo_no_marker ''/profile'' no_options []) =
       Inr \<lparr>screenshot = ''data:image/png;base64,iVBO'',
             sr_timestamp = ''2024-01-01T00:00:00.000Z'',
             sr_metadata = \<lparr>sm_url = ''http://localhost:5000/feed'', sm_title = ''Feed'',
                            sm_viewportSize = Some \<lparr>width = 1920, height = 1080\<rparr>,
                            sm_user = ''test-user''\<rparr>\<rparr>
   \<and> Threw readinessWait ''TimeoutError''
     \<in> set (snd (generateAuthenticatedPDF demo_service demo_no_marker ''/report'' no_options []))
   \<and> softWaitFailure ''TimeoutError'' warn_proceeding (Pdf a4_options)
        (generateAuthenticatedPDF demo_service demo_no_marker ''/report'' no_options [])
   \<and> Threw readinessWait ''TimeoutError''
     \<in> set (snd (scrapeAuthenticatedContent demo_service demo_no_marker ''/feed'' [''.post-title'']
                   no_options []))
   \<and> softWaitFailure ''TimeoutError'' warn_plain Title
        (scrapeAuthenticatedContent demo_service demo_no_marker ''/feed'' [''.post-title'']
           no_options [])"
proof -
  have a: "Threw readinessWait ''TimeoutError''
     \<in> set (snd (takeAuthenticatedScreenshot demo_service demo_no_marker ''/profile'' no_options []))"
    by (simp add: takeAuthenticatedScreenshot_def collaborator_defs prog_defs demo_defs
        readinessWait_def)
  have b: "Threw readinessWait ''TimeoutError''
     \<in> set (snd (generateAuthenticatedPDF demo_service demo_no_marker ''/report'' no_options []))"
    by (simp add: generateAuthenticatedPDF_def collaborator_defs prog_defs demo_defs
        readinessWait_def)
  have c: "Threw readinessWait ''TimeoutError''
     \<in> set (snd (scrapeAuthenticatedContent demo_service demo_no_marker ''/feed'' [''.post-title'']
                   no_options []))"
    by (simp add: scrapeAuthenticatedContent_def extractUserInfo_def userInfoSelectors_def
        collaborator_defs prog_defs demo_defs readinessWait_def)
  have r: "fst (takeAuthenticatedScreenshot demo_service demo_no_marker ''/profile'' no_options []) =
       Inr \<lparr>screenshot = ''data:image/png;base64,iVBO'',
             sr_timestamp = ''2024-01-01T00:00:00.000Z'',
             sr_metadata = \<lparr>sm_url = ''http://localhost:5000/feed'', sm_title = ''Feed'',
                            sm_viewportSize = Some \<lparr>width = 1920, height = 1080\<rparr>,
                            sm_user = ''test-user''\<rparr>\<rparr>"
    by (simp add: takeAuthenticatedScreenshot_def collaborator_defs prog_defs demo_defs
        b64_def base64_alphabet_def)
  note t = readiness_wait_failure_is_soft
    [of "''TimeoutError''" demo_service demo_no_marker "''/profile''" no_options "[]"]
  note u = readiness_wait_failure_is_soft
    [of "''TimeoutError''" demo_service demo_no_marker "''/report''" no_options "[]"]
  note v = readiness_wait_failure_is_soft
    [of "''TimeoutError''" demo_service demo_no_marker "''/feed''" no_options "[]" "[''.post-title'']"]
  show ?thesis
    using a b c r t u v by blast
qed

subsection \<open>The PDF\<close>

lemma pdf_returned:
  assumes "generateAuthenticatedPDF this env pth options h = (Inr r, es)"
  shows "\<exists>n\<in>{7, 8}. es ! n = Did (Pdf a4_options)
           \<and> (\<exists>doc. r_pdf env (h @ take n es) a4_options = Inr doc
                \<and> pdf r = ''data:application/pdf;base64,'' @ base64 doc)
           \<and> pm_url (pr_metadata r) = r_url env (h @ take (Suc n) es)
           \<and> r_title env (h @ take (Suc n) es) = Inr (pm_title (pr_metadata r))"
  using assms
  unfolding generateAuthenticatedPDF_def collaborator_defs prog_defs
  by (auto split: sum.splits prod.splits)

lemma pdf_calls_a4:
  assumes "generateAuthenticatedPDF this env pth options h = (res, es)"
    and "ev \<in> set es" and "callOf ev = Pdf po"
  shows "po = a4_options"
  using assms
  unfolding generateAuthenticatedPDF_def collaborator_defs prog_defs
  by (auto simp: callOf_def split: sum.splits prod.splits)

text \<open>
  Claim C8: \<^verbatim>\<open>generateAuthenticatedPDF\<close> asks the page for a PDF with the format A4,
  printed backgrounds and margins of one inch on the four sides, in every call of
  \<^verbatim>\<open>page.pdf\<close> it makes. When it returns, its payload is
  \<^verbatim>\<open>data:application/pdf;base64,\<close> followed by the base64 text of the bytes that this call
  gave, and its metadata hold the url and the title that the page gave right after.
\<close>

theorem pdf_is_a4_data_uri:
  "(ev \<in> set (snd (generateAuthenticatedPDF this env pth options h)) \<and> callOf ev = Pdf po \<longrightarrow>
      po = \<lparr>format = ''A4'', printBackground = True,
            margin = \<lparr>margin_top = ''1in'', margin_right = ''1in'',
                      margin_bottom = ''1in'', margin_left = ''1in''\<rparr>\<rparr>)
   \<and> (generateAuthenticatedPDF this env pth options h = (Inr r, es) \<longrightarrow>
      (\<exists>n doc. es ! n = Did (Pdf \<lparr>format = ''A4'', printBackground = True,
                     margin = \<lparr>margin_top = ''1in'', margin_right = ''1in'',
                               margin_bottom = ''1in'', margin_left = ''1in''\<rparr>\<rparr>)
         \<and> r_pdf env (h @ take n es) a4_options = Inr doc
         \<and> pdf r = ''data:application/pdf;base64,'' @ base64 doc
         \<and> prefix ''data:application/pdf;base64,'' (pdf r)
         \<and> pm_url (pr_metadata r) = r_url env (h @ take (Suc n) es)
         \<and> r_title env (h @ take (Suc n) es) = Inr (pm_title (pr_metadata r))))"
proof (intro conjI impI)
  assume "ev \<in> set (snd (generateAuthenticatedPDF this env pth options h)) \<and> callOf ev = Pdf po"
  then have "po = a4_options"
    using pdf_calls_a4 [of this env pth options h _ _ ev po] by (metis prod.collapse)
  then show "po = \<lparr>format = ''A4'', printBackground = True,
            margin = \<lparr>margin_top = ''1in'', margin_right = ''1in'',
                      margin_bottom = ''1in'', margin_left = ''1in''\<rparr>\<rparr>"
    by (simp add: a4_options_def)
next
  assume "generateAuthenticatedPDF this env pth options h = (Inr r, es)"
  from pdf_returned [OF this] obtain n doc where
    "es ! n = Did (Pdf a4_options)" "r_pdf env (h @ take n es) a4_options = Inr doc"
    "pdf r = ''data:application/pdf;base64,'' @ base64 doc"
    "pm_url (pr_metadata r) = r_url env (h @ take (Suc n) es)"
    "r_title env (h @ take (Suc n) es) = Inr (pm_title (pr_metadata r))"
    by blast
  then show "\<exists>n doc. es ! n = Did (Pdf \<lparr>format = ''A4'', printBackground = True,
                     margin = \<lparr>margin_top = ''1in'', margin_right = ''1in'',
                               margin_bottom = ''1in'', margin_left = ''1in''\<rparr>\<rparr>)
         \<and> r_pdf env (h @ take n es) a4_options = Inr doc
         \<and> pdf r = ''data:application/pdf;base64,'' @ base64 doc
         \<and> prefix ''data:application/pdf;base64,'' (pdf r)
         \<and> pm_url (pr_metadata r) = r_url env (h @ take (Suc n) es)
         \<and> r_title env (h @ take (Suc n) es) = Inr (pm_title (pr_metadata r))"
    by (intro exI [of _ n] exI [of _ doc]) (simp add: a4_options_def)
qed

theorem pdf_is_a4_data_uri_witness:
  "Did (Pdf a4_options) \<in> set (snd (generateAuthenticatedPDF demo_service demo_browser ''/report'' no_options []))
   \<and> callOf (Did (Pdf a4_options)) = Pdf a4_options
   \<and> a4_options = \<lparr>format = ''A4'', printBackground = True,
            margin = \<lparr>margin_top = ''1in'', margin_right = ''1in'',
                      margin_bottom = ''1in'', margin_left = ''1in''\<rparr>\<rparr>
   \<and> generateAuthenticatedPDF demo_service demo_browser ''/report'' no_options [] =
       (Inr demo_pdf_result, demo_pdf_calls)
   \<and> (\<exists>n doc. demo_pdf_calls ! n = Did (Pdf \<lparr>format = ''A4'', printBackground = True,
                     margin = \<lparr>margin_top = ''1in'', margin_right = ''1in'',
                               margin_bottom = ''1in'', margin_left = ''1in''\<rparr>\<rparr>)
         \<and> r_pdf demo_browser ([] @ take n demo_pdf_calls) a4_options = Inr doc
         \<and> pdf demo_pdf_result = ''data:application/pdf;base64,'' @ base64 doc
         \<and> prefix ''data:application/pdf;base64,'' (pdf demo_pdf_result)
         \<and> pm_url (pr_metadata demo_pdf_result) = r_url demo_browser ([] @ take (Suc n) demo_pdf_calls)
         \<and> r_title demo_browser ([] @ take (Suc n) demo_pdf_calls) =
             Inr (pm_title (pr_metadata demo_pdf_result)))"
proof -
  have run: "generateAuthenticatedPDF demo_service demo_browser ''/report'' no_options [] =
       (Inr demo_pdf_result, demo_pdf_calls)"
    by (simp add: generateAuthenticatedPDF_def collaborator_defs prog_defs demo_defs
        demo_pdf_result_def demo_pdf_calls_def b64_def base64_alphabet_def or_viewport_def
        default_viewport_def)
  have mem: "Did (Pdf a4_options)
      \<in> set (snd (generateAuthenticatedPDF demo_service demo_browser ''/report'' no_options []))
      \<and> callOf (Did (Pdf a4_options)) = Pdf a4_options"
    by (simp add: run demo_pdf_calls_def callOf_def)
  note t = pdf_is_a4_data_uri
    [of "Did (Pdf a4_options)" demo_service demo_browser "''/report''" no_options "[]" a4_options
        demo_pdf_result demo_pdf_calls]
  show ?thesis
    using mem run mp [OF conjunct1 [OF t] mem] mp [OF conjunct2 [OF t] run] by blast
qed

subsection \<open>The scraped data\<close>


lemma scrape_returned:
  assumes "scrapeAuthenticatedContent this env pth sels options h = (Inr r, es)"
  shows "\<exists>n\<in>{7, 8}. \<exists>d loopcalls t ui uicalls.
           scrapeLoop env sels [] (h @ take n es) = (Inr d, loopcalls)
           \<and> r_title env (h @ take n es @ loopcalls) = Inr t
           \<and> extractUserInfo env (h @ take n es @ loopcalls @ [Did Title]) = (Inr ui, uicalls)
           \<and> es = take n es @ loopcalls @ Did Title # uicalls @ [Did Title, Did CloseContext]
           \<and> length (take n es) = n
           \<and> data r = AList.update ''userInfo'' (Obj ui)
                        (AList.update ''url'' (Str (r_url env (h @ take n es @ loopcalls @ [Did Title])))
                          (AList.update ''title'' (Str t) d))"
  using assms
  unfolding scrapeAuthenticatedContent_def collaborator_defs prog_defs
  by (auto split: sum.splits prod.splits)


text \<open>
  Claim C10: the keys \<^verbatim>\<open>title\<close>, \<^verbatim>\<open>url\<close> and \<^verbatim>\<open>userInfo\<close> are written after the
  selector loop, onto the object that the loop filled. In every returned result they hold
  the title of the page, its url and the user-info object, whatever the selectors were: a
  selector with one of these three names loses the value that the loop stored for it.
\<close>

theorem page_info_overwrites_selectors:
  assumes "scrapeAuthenticatedContent this env pth sels options h = (Inr r, es)"
  shows "\<exists>pre d loopcalls t ui uicalls.
           scrapeLoop env sels [] (h @ pre) = (Inr d, loopcalls)
           \<and> r_title env (h @ pre @ loopcalls) = Inr t
           \<and> extractUserInfo env (h @ pre @ loopcalls @ [Did Title]) = (Inr ui, uicalls)
           \<and> es = pre @ loopcalls @ Did Title # uicalls @ [Did Title, Did CloseContext]
           \<and> data r = AList.update ''userInfo'' (Obj ui)
                        (AList.update ''url'' (Str (r_url env (h @ pre @ loopcalls @ [Did Title])))
                          (AList.update ''title'' (Str t) d))
           \<and> map_of (data r) ''title'' = Some (Str t)
           \<and> map_of (data r) ''url'' = Some (Str (r_url env (h @ pre @ loopcalls @ [Did Title])))
           \<and> map_of (data r) ''userInfo'' = Some (Obj ui)"
proof -
  from scrape_returned [OF assms] obtain n d loopcalls t ui uicalls where
    f: "scrapeLoop env sels [] (h @ take n es) = (Inr d, loopcalls)"
       "r_title env (h @ take n es @ loopcalls) = Inr t"
       "extractUserInfo env (h @ take n es @ loopcalls @ [Did Title]) = (Inr ui, uicalls)"
       "es = take n es @ loopcalls @ Did Title # uicalls @ [Did Title, Did CloseContext]"
       "data r = AList.update ''userInfo'' (Obj ui)
                  (AList.update ''url'' (Str (r_url env (h @ take n es @ loopcalls @ [Did Title])))
                    (AList.update ''title'' (Str t) d))"
    by blast
  have "map_of (data r) ''title'' = Some (Str t)"
    "map_of (data r) ''url'' = Some (Str (r_url env (h @ take n es @ loopcalls @ [Did Title])))"
    "map_of (data r) ''userInfo'' = Some (Obj ui)"
    by (simp_all add: f(5) update_conv')
  with f show ?thesis
    by (intro exI [of _ "take n es"] exI [of _ d] exI [of _ loopcalls] exI [of _ t]
        exI [of _ ui] exI [of _ uicalls]) simp
qed

lemmas scrape_eval =
  scrapeAuthenticatedContent_def extractUserInfo_def userInfoSelectors_def collaborator_defs
  prog_defs demo_defs scrape_opening_def scrape_closing_def demo_page_info_def
  demo_scrape_metadata_def demo_feed_result_def demo_feed_calls_def demo_title_result_def
  demo_title_calls_def networkidle_def

theorem page_info_overwrites_selectors_witness:
  "scrapeAuthenticatedContent demo_service demo_browser ''/feed'' [''title''] no_options [] =
     (Inr demo_title_result, demo_title_calls)
   \<and> (\<exists>pre d loopcalls t ui uicalls.
           scrapeLoop demo_browser [''title''] [] ([] @ pre) = (Inr d, loopcalls)
           \<and> r_title demo_browser ([] @ pre @ loopcalls) = Inr t
           \<and> extractUserInfo demo_browser ([] @ pre @ loopcalls @ [Did Title]) = (Inr ui, uicalls)
           \<and> demo_title_calls = pre @ loopcalls @ Did Title # uicalls @ [Did Title, Did CloseContext]
           \<and> data demo_title_result = AList.update ''userInfo'' (Obj ui)
                (AList.update ''url'' (Str (r_url demo_browser ([] @ pre @ loopcalls @ [Did Title])))
                  (AList.update ''title'' (Str t) d))
           \<and> map_of (data demo_title_result) ''title'' = Some (Str t)
           \<and> map_of (data demo_title_result) ''url'' =
               Some (Str (r_url demo_browser ([] @ pre @ loopcalls @ [Did Title])))
           \<and> map_of (data demo_title_result) ''userInfo'' = Some (Obj ui))"
proof -
  have run: "scrapeAuthenticatedContent demo_service demo_browser ''/feed'' [''title''] no_options [] =
     (Inr demo_title_result, demo_title_calls)"
    by (simp add: scrape_eval)
  show ?thesis
    by (rule conjI [OF run page_info_overwrites_selectors [OF run]])
qed




subsection \<open>The bypass headers\<close>





lemma perform_calls:
  assumes "perform c oracle h = (r, es)"
  shows "\<forall>ev\<in>set es. callOf ev = c"
  using assms by (auto simp: perform_def callOf_def split: sum.splits)

























subsection \<open>The context on the paths through the \<^verbatim>\<open>try\<close>\<close>

text \<open>Once the page exists, every method runs inside its \<^verbatim>\<open>try\<close>, and the
  \<^verbatim>\<open>finally\<close> closes the one context that was opened, whatever the body did.\<close>

lemma opened_append: "opened (a @ b) = opened a + opened b"
  by (simp add: opened_def)

lemma closed_append: "closed (a @ b) = closed a + closed b"
  by (simp add: closed_def)

lemma no_context_events:
  assumes "\<forall>ev\<in>set es. (\<forall>c. callOf ev \<noteq> NewContext c) \<and> callOf ev \<noteq> CloseContext"
  shows "opened es = 0 \<and> closed es = 0"
  using assms
  by (induction es) (auto simp: opened_def closed_def callOf_def split: event.splits call.splits)

lemma quiet_andThen:
  assumes "noContextCalls m" and "\<And>x. noContextCalls (f x)"
  shows "noContextCalls (andThen m f)"
  unfolding noContextCalls_def
proof
  fix h
  obtain r es where m: "m h = (r, es)" by (metis surj_pair)
  have one: "opened es = 0" "closed es = 0"
    using assms(1) m by (auto simp: noContextCalls_def dest: spec [of _ h])
  show "opened (snd (andThen m f h)) = 0 \<and> closed (snd (andThen m f h)) = 0"
  proof (cases r)
    case (Inl e)
    with m one show ?thesis by (simp add: andThen_def)
  next
    case (Inr x)
    obtain r2 es2 where f: "f x (h @ es) = (r2, es2)" by (metis surj_pair)
    have "opened es2 = 0" "closed es2 = 0"
      using assms(2) [of x] f by (auto simp: noContextCalls_def dest: spec [of _ "h @ es"])
    with m Inr f one show ?thesis
      by (simp add: andThen_def opened_append closed_append)
  qed
qed

lemma quiet_tryCatch:
  assumes "noContextCalls m" and "\<And>e. noContextCalls (handler e)"
  shows "noContextCalls (tryCatch m handler)"
  unfolding noContextCalls_def
proof
  fix h
  obtain r es where m: "m h = (r, es)" by (metis surj_pair)
  have one: "opened es = 0" "closed es = 0"
    using assms(1) m by (auto simp: noContextCalls_def dest: spec [of _ h])
  show "opened (snd (tryCatch m handler h)) = 0 \<and> closed (snd (tryCatch m handler h)) = 0"
  proof (cases r)
    case (Inr x)
    with m one show ?thesis by (simp add: tryCatch_def)
  next
    case (Inl e)
    obtain r2 es2 where f: "handler e (h @ es) = (r2, es2)" by (metis surj_pair)
    have "opened es2 = 0" "closed es2 = 0"
      using assms(2) [of e] f by (auto simp: noContextCalls_def dest: spec [of _ "h @ es"])
    with m Inl f one show ?thesis
      by (simp add: tryCatch_def opened_append closed_append)
  qed
qed

lemma quiet_perform:
  assumes "\<forall>x. c \<noteq> NewContext x" and "c \<noteq> CloseContext"
  shows "noContextCalls (perform c oracle)"
proof -
  have "\<forall>ev\<in>set (snd (perform c oracle h)).
          (\<forall>x. callOf ev \<noteq> NewContext x) \<and> callOf ev \<noteq> CloseContext" for h
    using assms by (auto simp: perform_def callOf_def split: sum.splits)
  then show ?thesis
    by (simp add: noContextCalls_def no_context_events)
qed

lemma quiet_simple:
  "noContextCalls (ret x)" "noContextCalls (observe f)" "noContextCalls (console_log msg)"
  by (simp_all add: noContextCalls_def ret_def observe_def console_log_def opened_def closed_def)

lemma quiet_scrapeLoop: "noContextCalls (scrapeLoop env sels d)"
proof -
  have "opened (snd (scrapeLoop env sels d h)) = 0 \<and> closed (snd (scrapeLoop env sels d h)) = 0" for h
    using scrapeLoop_calls [of env sels d h "fst (scrapeLoop env sels d h)" "snd (scrapeLoop env sels d h)"]
    by (intro no_context_events) auto
  then show ?thesis by (simp add: noContextCalls_def)
qed

lemma quiet_extractUserInfo: "noContextCalls (extractUserInfo env)"
proof -
  have "opened (snd (extractUserInfo env h)) = 0 \<and> closed (snd (extractUserInfo env h)) = 0" for h
    using extractUserInfo_calls [of env h "fst (extractUserInfo env h)" "snd (extractUserInfo env h)"]
    by (intro no_context_events) auto
  then show ?thesis by (simp add: noContextCalls_def)
qed

lemma flowStep_quiet:
  assumes "flowStep this env i s lg shots h = (out, lg', shots', es)"
  shows "opened es = 0 \<and> closed es = 0"
proof (intro no_context_events, cases "action s")
  case goto
  with assms show "\<forall>ev\<in>set es. (\<forall>c. callOf ev \<noteq> NewContext c) \<and> callOf ev \<noteq> CloseContext"
    by (auto simp: flowStep_def Let_def page_goto_def
        split: prod.splits sum.splits dest!: perform_calls)
next
  case click
  with assms show "\<forall>ev\<in>set es. (\<forall>c. callOf ev \<noteq> NewContext c) \<and> callOf ev \<noteq> CloseContext"
    by (auto simp: flowStep_def Let_def page_click_def
        split: prod.splits sum.splits option.splits dest!: perform_calls)
next
  case fill
  with assms show "\<forall>ev\<in>set es. (\<forall>c. callOf ev \<noteq> NewContext c) \<and> callOf ev \<noteq> CloseContext"
    by (auto simp: flowStep_def Let_def page_fill_def
        split: prod.splits sum.splits option.splits dest!: perform_calls)
next
  case screenshot_action
  with assms show "\<forall>ev\<in>set es. (\<forall>c. callOf ev \<noteq> NewContext c) \<and> callOf ev \<noteq> CloseContext"
    by (auto simp: flowStep_def Let_def page_screenshot_def
        split: prod.splits sum.splits dest!: perform_calls)
next
  case wait
  with assms show "\<forall>ev\<in>set es. (\<forall>c. callOf ev \<noteq> NewContext c) \<and> callOf ev \<noteq> CloseContext"
    by (auto simp: flowStep_def Let_def waitForSelector_def waitForTimeout_def
        split: prod.splits sum.splits option.splits dest!: perform_calls)
qed

lemma flowLoop_quiet:
  assumes "flowLoop this env entries lg shots h = (out, lg', shots', es)"
  shows "opened es = 0 \<and> closed es = 0"
  using assms
proof (induction entries arbitrary: lg shots h out lg' shots' es)
  case Nil
  then show ?case by (simp add: opened_def closed_def)
next
  case (Cons x entries)
  obtain i s where x: "x = (i, s)" by (cases x)
  obtain o1 lg1 shots1 es1 where step: "flowStep this env i s lg shots h = (o1, lg1, shots1, es1)"
    by (metis prod_cases4)
  note one = flowStep_quiet [OF step]
  show ?case
  proof (cases o1)
    case (Inl e)
    with Cons.prems step x one show ?thesis by simp
  next
    case (Inr u)
    obtain o2 lg2 shots2 es2 where
      rest: "flowLoop this env entries lg1 shots1 (h @ es1) = (o2, lg2, shots2, es2)"
      by (metis prod_cases4)
    with Cons.prems step x Inr have "es = es1 @ es2" by simp
    with Cons.IH [OF rest] one show ?thesis
      by (simp add: opened_append closed_append)
  qed
qed

lemma quiet_flowBody: "noContextCalls (flowBody this env flowSteps)"
  unfolding noContextCalls_def
proof
  fix h
  obtain o2 lg2 shots2 es2 where
    loop: "flowLoop this env (enumerate 0 flowSteps) [] []
             (h @ [Did (ConsoleLog flow_start)] @ [Did (SetExtraHTTPHeaders bypassHeaders)]) =
           (o2, lg2, shots2, es2)"
    by (metis prod_cases4)
  from flowLoop_quiet [OF loop] loop
  show "opened (snd (flowBody this env flowSteps h)) = 0
        \<and> closed (snd (flowBody this env flowSteps h)) = 0"
    by (auto simp: flowBody_def flowTry_def Let_def setExtraHTTPHeaders_def perform_def
        opened_def closed_def split: sum.splits prod.splits)
qed

lemma session_balanced:
  assumes "noContextCalls body"
    and "Did NewPage \<in> set (snd (andThen (getPlaywrightBrowser env) (\<lambda>_.
           andThen (newContext env c) (\<lambda>_.
           andThen (newPage env) (\<lambda>_. tryFinally body context_close))) h))"
  shows "opened (snd (andThen (getPlaywrightBrowser env) (\<lambda>_.
           andThen (newContext env c) (\<lambda>_.
           andThen (newPage env) (\<lambda>_. tryFinally body context_close))) h)) = 1
         \<and> closed (snd (andThen (getPlaywrightBrowser env) (\<lambda>_.
           andThen (newContext env c) (\<lambda>_.
           andThen (newPage env) (\<lambda>_. tryFinally body context_close))) h)) = 1"
proof -
  have "opened (snd (body h')) = 0 \<and> closed (snd (body h')) = 0" for h'
    using assms(1) by (simp add: noContextCalls_def)
  then have "opened es = 0 \<and> closed es = 0" if "body h' = (r, es)" for h' r es
    using that by (metis snd_conv)
  then show ?thesis
    using assms(2)
    by (auto simp: andThen_def tryFinally_def getPlaywrightBrowser_def newContext_def
        newPage_def context_close_def perform_def opened_def closed_def
        split: sum.splits prod.splits)
qed

lemma context_released_once_page_exists:
  "Did NewPage \<in> set (snd (takeAuthenticatedScreenshot this env pth options h)) \<Longrightarrow>
     opened (snd (takeAuthenticatedScreenshot this env pth options h)) = 1
     \<and> closed (snd (takeAuthenticatedScreenshot this env pth options h)) = 1"
  "Did NewPage \<in> set (snd (generateAuthenticatedPDF this env pth options h)) \<Longrightarrow>
     opened (snd (generateAuthenticatedPDF this env pth options h)) = 1
     \<and> closed (snd (generateAuthenticatedPDF this env pth options h)) = 1"
  "Did NewPage \<in> set (snd (testUserFlow this env flowSteps options h)) \<Longrightarrow>
     opened (snd (testUserFlow this env flowSteps options h)) = 1
     \<and> closed (snd (testUserFlow this env flowSteps options h)) = 1"
  "Did NewPage \<in> set (snd (scrapeAuthenticatedContent this env pth sels options h)) \<Longrightarrow>
     opened (snd (scrapeAuthenticatedContent this env pth sels options h)) = 1
     \<and> closed (snd (scrapeAuthenticatedContent this env pth sels options h)) = 1"
  unfolding takeAuthenticatedScreenshot_def generateAuthenticatedPDF_def testUserFlow_def
    scrapeAuthenticatedContent_def
  by (erule session_balanced [rotated];
      intro quiet_andThen quiet_tryCatch quiet_simple quiet_scrapeLoop quiet_extractUserInfo
        quiet_flowBody;
      (unfold setExtraHTTPHeaders_def page_goto_def waitForSelector_def page_screenshot_def
        page_pdf_def page_title_def page_url_def page_viewportSize_def now_iso_def)?;
      (intro quiet_perform quiet_simple)?; simp?)+

end
